theory Spec2Isabelle
  imports Complex_Main "HOL-Library.Char_ord" "HOL-Library.List_Lexorder"
begin

section \<open>Data model of pkg/api/neighborhood.go\<close>

text \<open>
  A \<open>float64\<close> is a finite value, one of the two infinities or NaN. A finite value is
  given by the real number it stands for (the model does not say which reals a
  \<open>float64\<close> can hold, and has one zero). \<open>lessFloat\<close> is Go's \<open><\<close> on
  \<open>float64\<close>: it is false as soon as one side is NaN. The rounded addition of two
  \<open>float64\<close> is a parameter, \<open>addFloat\<close>, of every function that adds; nothing is
  assumed about it.
\<close>

datatype float64 = Finite real | PosInf | NegInf | NaN

fun lessFloat :: "float64 \<Rightarrow> float64 \<Rightarrow> bool" where
  "lessFloat (Finite a) (Finite b) = (a < b)"
| "lessFloat (Finite a) PosInf = True"
| "lessFloat NegInf (Finite b) = True"
| "lessFloat NegInf PosInf = True"
| "lessFloat x y = False"

text \<open>
  The Go struct \<open>Neighborhood\<close>. Go strings are byte sequences, as \<open>string\<close> is here.
\<close>

record Neighborhood =
  Name :: string
  City :: string
  StateOrProvinceName :: string
  Country :: string
  Latitude :: float64
  Longitude :: float64

text \<open>The zero value \<open>Neighborhood{}\<close>.\<close>

definition zeroNeighborhood :: Neighborhood where
  "zeroNeighborhood =
     \<lparr>Name = [], City = [], StateOrProvinceName = [], Country = [],
      Latitude = Finite 0, Longitude = Finite 0\<rparr>"

text \<open>
  Go's \<open>error\<close> values that the package sees: its own \<open>NoNeighborhoodFoundError\<close> and
  whatever the database driver returns from \<open>row.Scan\<close>. A function returning
  \<open>(T, error)\<close> is a pair whose second component is \<open>None\<close> for \<open>nil\<close>.
\<close>

datatype error = NoNeighborhoodFoundError string | QueryError string

text \<open>A call either returns or stops in a runtime panic.\<close>

datatype 'a outcome = Panic | Returned 'a

section \<open>Iterating over a Go map\<close>

text \<open>
  A Go map is a partial function. \<open>for k, v := range m\<close> visits every key once, in an
  order the language leaves open and the runtime randomises. The order is therefore a
  parameter: a list of keys, and \<open>iterationOrder\<close> says that it is one the runtime may
  choose for \<open>m\<close>. Ranging over a nil map visits nothing.
\<close>

definition rangeMap :: "'k list \<Rightarrow> ('k \<rightharpoonup> 'v) \<Rightarrow> ('k \<times> 'v) list" where
  "rangeMap order m = List.map_filter (\<lambda>k. map_option (Pair k) (m k)) order"

definition iterationOrder :: "'k list \<Rightarrow> ('k \<rightharpoonup> 'v) \<Rightarrow> bool" where
  "iterationOrder order m = (distinct order \<and> set order = dom m)"

section \<open>Frequency resolution\<close>

record neighorboodNameFrequency =
  name :: string
  count :: int

type_synonym neighborhoodNameFrequencyMinHeap = "neighorboodNameFrequency list"

definition Less :: "neighborhoodNameFrequencyMinHeap \<Rightarrow> nat \<Rightarrow> nat \<Rightarrow> bool" where
  "Less h i j = (count (h ! i) < count (h ! j))"

definition Swap ::
  "neighborhoodNameFrequencyMinHeap \<Rightarrow> nat \<Rightarrow> nat \<Rightarrow> neighborhoodNameFrequencyMinHeap" where
  "Swap h i j = h[i := h ! j, j := h ! i]"

definition Len :: "neighborhoodNameFrequencyMinHeap \<Rightarrow> nat" where
  "Len h = length h"

definition Push ::
  "neighborhoodNameFrequencyMinHeap \<Rightarrow> neighorboodNameFrequency \<Rightarrow> neighborhoodNameFrequencyMinHeap"
  where
  "Push h x = h @ [x]"

text \<open>
  The method \<open>Pop\<close> of the heap type removes the last element of the slice;
  \<open>old[n-1]\<close> panics on an empty slice.
\<close>

definition Pop ::
  "neighborhoodNameFrequencyMinHeap \<Rightarrow>
     (neighorboodNameFrequency \<times> neighborhoodNameFrequencyMinHeap) outcome" where
  "Pop h = (if h = [] then Panic else Returned (last h, butlast h))"

text \<open>
  \<open>container/heap\<close> of the Go standard library: \<open>heap.Push(h, x)\<close> calls the method
  \<open>h.Push(x)\<close> and then \<open>up(h, h.Len()-1)\<close>, where
  \<^verbatim>\<open>
  func up(h Interface, j int) {
      for {
          i := (j - 1) / 2 // parent
          if i == j || !h.Less(j, i) { break }
          h.Swap(i, j)
          j = i
      }
  }
  \<close>
  Go's \<open>(0 - 1) / 2\<close> truncates to 0, as the subtraction on \<open>nat\<close> does here.
  \<open>heap.Init\<close> on the empty heap does nothing.
\<close>

function up :: "neighborhoodNameFrequencyMinHeap \<Rightarrow> nat \<Rightarrow> neighborhoodNameFrequencyMinHeap" where
  "up h j =
     (let i = (j - 1) div 2
      in if i = j \<or> \<not> Less h j i then h else up (Swap h i j) i)"
  by pat_completeness auto
termination
  by (relation "measure (\<lambda>(h, j). j)") auto

definition heapPush ::
  "neighborhoodNameFrequencyMinHeap \<Rightarrow> neighorboodNameFrequency \<Rightarrow> neighborhoodNameFrequencyMinHeap"
  where
  "heapPush h x = (let h1 = Push h x in up h1 (Len h1 - 1))"

definition getMaxHeap :: "string list \<Rightarrow> (string \<rightharpoonup> int) \<Rightarrow> neighborhoodNameFrequencyMinHeap" where
  "getMaxHeap order m =
     foldl heapPush [] (map (\<lambda>(k, v). \<lparr>name = k, count = v\<rparr>) (rangeMap order m))"

text \<open>
  The loop of \<open>findNeighborhoodsWithSameFrequency\<close>:
  \<open>for i := 0; i < h.Len(); i++\<close>, whose bound shrinks with every \<open>h.Pop()\<close>.
\<close>

function sameFrequencyLoop ::
  "nat \<Rightarrow> neighborhoodNameFrequencyMinHeap \<Rightarrow> int \<Rightarrow> string list \<Rightarrow> string list outcome" where
  "sameFrequencyLoop i h maxCount neighborhoodNames =
     (if i < Len h then
        (case Pop h of
           Panic \<Rightarrow> Panic
         | Returned (v, h') \<Rightarrow>
             if count v < maxCount then Returned neighborhoodNames
             else sameFrequencyLoop (i + 1) h' (count v) (neighborhoodNames @ [name v]))
      else Returned neighborhoodNames)"
  by pat_completeness auto
termination
  by (relation "measure (\<lambda>(i, h, m, ns). length h - i)")
     (auto simp: Pop_def Len_def split: if_splits)

definition findNeighborhoodsWithSameFrequency ::
  "neighborhoodNameFrequencyMinHeap \<Rightarrow> (string list \<times> error option) outcome" where
  "findNeighborhoodsWithSameFrequency h =
     (if Len h = 0 then Returned ([], None)
      else if Len h = 1 then
        (case Pop h of
           Panic \<Rightarrow> Panic
         | Returned (v, h') \<Rightarrow> Returned ([name v], None))
      else
        (case sameFrequencyLoop 0 h 0 [] of
           Panic \<Rightarrow> Panic
         | Returned neighborhoodNames \<Rightarrow> Returned (neighborhoodNames, None)))"

text \<open>The frequency table: one pass over the input, counting by \<open>Name\<close>.\<close>

fun frequencyTable :: "(string \<rightharpoonup> int) \<Rightarrow> Neighborhood list \<Rightarrow> (string \<rightharpoonup> int)" where
  "frequencyTable m [] = m"
| "frequencyTable m (neighborhood # rest) =
     frequencyTable
       (case m (Name neighborhood) of
          Some c \<Rightarrow> m(Name neighborhood \<mapsto> c + 1)
        | None \<Rightarrow> m(Name neighborhood \<mapsto> 1))
       rest"

definition findNeighborhoodWithHighestOccurrence ::
  "string list \<Rightarrow> Neighborhood list \<Rightarrow> (string list \<times> error option) outcome" where
  "findNeighborhoodWithHighestOccurrence order neighborhoods =
     (let neighborhoodFrequency = frequencyTable Map.empty neighborhoods;
          h = getMaxHeap order neighborhoodFrequency
      in case findNeighborhoodsWithSameFrequency h of
           Panic \<Rightarrow> Panic
         | Returned (neighborhoodNames, Some err) \<Rightarrow> Returned ([], Some err)
         | Returned (neighborhoodNames, None) \<Rightarrow> Returned (neighborhoodNames, None))"

section \<open>Graph construction\<close>

record Edge =
  sourceNode :: Neighborhood
  targetNode :: Neighborhood
  distanceInMeters :: float64

text \<open>
  The struct \<open>Graph\<close>. Its field \<open>edges\<close> is a Go map, whose zero value is the nil
  map (\<open>None\<close>): reading a nil map gives the zero value, writing to it panics.
\<close>

record Graph =
  nodes :: "Neighborhood list"
  edges :: "(string \<rightharpoonup> Edge list) option"

definition zeroGraph :: Graph where
  "zeroGraph = \<lparr>nodes = [], edges = None\<rparr>"

definition composeDifferingNeighborhoodNamesSlice ::
  "string \<Rightarrow> Neighborhood list \<Rightarrow> Neighborhood list" where
  "composeDifferingNeighborhoodNamesSlice currentNeighborhoodName allNeighborhoodNames =
     filter (\<lambda>neighborhood. currentNeighborhoodName \<noteq> Name neighborhood) allNeighborhoodNames"

text \<open>
  \<open>generateNeighborhoodCacheKey\<close> sorts the two names (\<open>sort.Strings\<close>, bytewise
  lexicographic order), joins them with the empty separator and takes the hexadecimal
  MD5 digest. The digest function is a parameter \<open>md5hex\<close>.
\<close>

definition generateNeighborhoodCacheKey :: "(string \<Rightarrow> string) \<Rightarrow> string \<Rightarrow> string \<Rightarrow> string" where
  "generateNeighborhoodCacheKey md5hex neighborhoodName otherNeighborhoodName =
     (let cacheKeyElements = sort [neighborhoodName, otherNeighborhoodName];
          cacheKey = concat cacheKeyElements
      in md5hex cacheKey)"

text \<open>
  \<open>getDistanceBetweenTwoCoordinates\<close> asks the database for the spherical distance of
  two points and scans one row. The database is the parameter \<open>query\<close>, which gives
  the scanned distance or the error of \<open>row.Scan\<close>; the two-element slices the callers
  build are pairs. On an error the function returns \<open>0.0\<close> together with the error.
\<close>

type_synonym point = "float64 \<times> float64"
type_synonym distanceQuery = "point \<Rightarrow> point \<Rightarrow> error + float64"

definition getDistanceBetweenTwoCoordinates ::
  "distanceQuery \<Rightarrow> point \<Rightarrow> point \<Rightarrow> float64 \<times> error option" where
  "getDistanceBetweenTwoCoordinates query point1 point2 =
     (case query point1 point2 of
        Inl err \<Rightarrow> (Finite 0, Some err)
      | Inr meters \<Rightarrow> (meters, None))"

text \<open>
  The state of the two nested loops of
  \<open>findNeighborhoodWithLeastDistanceToAllOtherNeighborhoods\<close>: the graph, the distance
  cache, and (for reasoning only) the list of pairs for which the database was asked.
\<close>

record BuildState =
  graph :: Graph
  distanceCache :: "string \<rightharpoonup> float64"
  providerCalls :: "(Neighborhood \<times> Neighborhood) list"

text \<open>
  The loops end normally (\<open>Built\<close>) or in the panic of an assignment to an entry of a
  nil map (\<open>BuildPanic\<close>, with the state reached).
\<close>

datatype buildOutcome = BuildPanic BuildState | Built BuildState

text \<open>Lines 323 to 332: the cache lookup, and the database call on a miss.\<close>

definition cachedDistance ::
  "(string \<Rightarrow> string) \<Rightarrow> distanceQuery \<Rightarrow> Neighborhood \<Rightarrow> Neighborhood \<Rightarrow> BuildState
     \<Rightarrow> float64 \<times> BuildState" where
  "cachedDistance md5hex query neighborhood otherNeighborhood s =
     (let hashedString =
            generateNeighborhoodCacheKey md5hex (Name neighborhood) (Name otherNeighborhood)
      in case distanceCache s hashedString of
           None \<Rightarrow>
             (let meters =
                    fst (getDistanceBetweenTwoCoordinates query
                           (Longitude neighborhood, Latitude neighborhood)
                           (Longitude otherNeighborhood, Latitude otherNeighborhood))
              in (meters,
                  s\<lparr>distanceCache := (distanceCache s)(hashedString \<mapsto> meters),
                    providerCalls := providerCalls s @ [(neighborhood, otherNeighborhood)]\<rparr>))
         | Some meters \<Rightarrow> (meters, s))"

text \<open>Line 335: \<open>graph.edges[name] = append(graph.edges[name], edge)\<close>.\<close>

definition appendEdge :: "string \<Rightarrow> Edge \<Rightarrow> BuildState \<Rightarrow> buildOutcome" where
  "appendEdge k edge s =
     (case edges (graph s) of
        None \<Rightarrow> BuildPanic s
      | Some m \<Rightarrow>
          Built (s\<lparr>graph := (graph s)
                   \<lparr>edges := Some (m(k \<mapsto> (case m k of None \<Rightarrow> [] | Some es \<Rightarrow> es) @ [edge]))\<rparr>\<rparr>))"

text \<open>The inner loop, over \<open>remainingNeighborhoods\<close>.\<close>

fun edgeLoop ::
  "(string \<Rightarrow> string) \<Rightarrow> distanceQuery \<Rightarrow> Neighborhood \<Rightarrow> Neighborhood list \<Rightarrow> BuildState
     \<Rightarrow> buildOutcome" where
  "edgeLoop md5hex query neighborhood [] s = Built s"
| "edgeLoop md5hex query neighborhood (otherNeighborhood # rest) s =
     (let source = neighborhood;
          target = neighborhood;
          (meters, s1) = cachedDistance md5hex query neighborhood otherNeighborhood s;
          edge = \<lparr>sourceNode = source, targetNode = target, distanceInMeters = meters\<rparr>
      in case appendEdge (Name neighborhood) edge s1 of
           BuildPanic s2 \<Rightarrow> BuildPanic s2
         | Built s2 \<Rightarrow> edgeLoop md5hex query neighborhood rest s2)"

text \<open>The outer loop, over \<open>neighborhoods\<close>; \<open>allNeighborhoods\<close> is the whole slice.\<close>

fun nodeLoop ::
  "(string \<Rightarrow> string) \<Rightarrow> distanceQuery \<Rightarrow> Neighborhood list \<Rightarrow> Neighborhood list \<Rightarrow> BuildState
     \<Rightarrow> buildOutcome" where
  "nodeLoop md5hex query allNeighborhoods [] s = Built s"
| "nodeLoop md5hex query allNeighborhoods (neighborhood # rest) s =
     (let s1 = s\<lparr>graph := (graph s)\<lparr>nodes := nodes (graph s) @ [neighborhood]\<rparr>\<rparr>;
          remainingNeighborhoods =
            composeDifferingNeighborhoodNamesSlice (Name neighborhood) allNeighborhoods
      in case edgeLoop md5hex query neighborhood remainingNeighborhoods s1 of
           BuildPanic s2 \<Rightarrow> BuildPanic s2
         | Built s2 \<Rightarrow> nodeLoop md5hex query allNeighborhoods rest s2)"

text \<open>
  The loops started from a given graph and an empty cache; the function itself starts
  them from \<open>var graph Graph\<close>, the zero graph.
\<close>

definition buildGraphFrom ::
  "Graph \<Rightarrow> (string \<Rightarrow> string) \<Rightarrow> distanceQuery \<Rightarrow> Neighborhood list \<Rightarrow> buildOutcome" where
  "buildGraphFrom g md5hex query neighborhoods =
     nodeLoop md5hex query neighborhoods neighborhoods
       \<lparr>graph = g, distanceCache = Map.empty, providerCalls = []\<rparr>"

definition buildGraph ::
  "(string \<Rightarrow> string) \<Rightarrow> distanceQuery \<Rightarrow> Neighborhood list \<Rightarrow> buildOutcome" where
  "buildGraph md5hex query neighborhoods = buildGraphFrom zeroGraph md5hex query neighborhoods"

section \<open>Median search\<close>

text \<open>Reading a missing key of a \<open>map[string]float64\<close> gives 0.\<close>

definition sumOf :: "(string \<rightharpoonup> float64) \<Rightarrow> string \<Rightarrow> float64" where
  "sumOf totals k = (case totals k of None \<Rightarrow> Finite 0 | Some v \<Rightarrow> v)"

text \<open>
  The inner loop of the accumulation:
  \<open>neighborhoodDistanceSums[sourceNode] += targetNode.distanceInMeters\<close> for every edge
  stored under \<open>sourceNode\<close>, in the order of the slice.
\<close>

definition addEdges ::
  "(float64 \<Rightarrow> float64 \<Rightarrow> float64) \<Rightarrow> string \<Rightarrow> Edge list \<Rightarrow> (string \<rightharpoonup> float64)
     \<Rightarrow> (string \<rightharpoonup> float64)" where
  "addEdges addFloat source es totals =
     fold (\<lambda>target acc. acc(source \<mapsto> addFloat (sumOf acc source) (distanceInMeters target)))
       es totals"

definition distanceSums ::
  "string list \<Rightarrow> (float64 \<Rightarrow> float64 \<Rightarrow> float64) \<Rightarrow> (string \<rightharpoonup> Edge list) option
     \<Rightarrow> (string \<rightharpoonup> float64)" where
  "distanceSums edgesOrder addFloat es =
     (case es of
        None \<Rightarrow> Map.empty
      | Some m \<Rightarrow>
          fold (\<lambda>(source, edgeList) totals.
                  addEdges addFloat source edgeList
                    (case totals source of
                       Some _ \<Rightarrow> totals(source \<mapsto> Finite 0)
                     | None \<Rightarrow> totals))
            (rangeMap edgesOrder m) Map.empty)"

text \<open>
  The selection loop: its state is \<open>(minValue, bestNeighborhood)\<close>, which starts as
  \<open>(math.Inf(1), Neighborhood{})\<close>. A sum that is NaN or \<open>+Inf\<close> is not below
  \<open>minValue\<close> and leaves the state as it is.
\<close>

definition selectStep ::
  "(string \<rightharpoonup> float64) \<Rightarrow> Neighborhood \<Rightarrow> float64 \<times> Neighborhood \<Rightarrow> float64 \<times> Neighborhood"
  where
  "selectStep totals node st =
     (let nodeDistanceSum = sumOf totals (Name node)
      in if lessFloat nodeDistanceSum (fst st) then (nodeDistanceSum, node) else st)"

definition findMinDistanceBetweenNodes ::
  "string list \<Rightarrow> (float64 \<Rightarrow> float64 \<Rightarrow> float64) \<Rightarrow> Graph \<Rightarrow> Neighborhood \<times> error option"
  where
  "findMinDistanceBetweenNodes edgesOrder addFloat g =
     (case nodes g of
        [only] \<Rightarrow> (only, None)
      | _ \<Rightarrow>
          (let neighborhoodDistanceSums = distanceSums edgesOrder addFloat (edges g);
               (minValue, bestNeighborhood) =
                 fold (selectStep neighborhoodDistanceSums) (nodes g) (PosInf, zeroNeighborhood)
           in (bestNeighborhood, None)))"

definition findNeighborhoodWithLeastDistanceToAllOtherNeighborhoods ::
  "string list \<Rightarrow> (float64 \<Rightarrow> float64 \<Rightarrow> float64) \<Rightarrow> (string \<Rightarrow> string) \<Rightarrow> distanceQuery
     \<Rightarrow> Neighborhood list \<Rightarrow> (Neighborhood \<times> error option) outcome" where
  "findNeighborhoodWithLeastDistanceToAllOtherNeighborhoods edgesOrder addFloat md5hex query
       neighborhoods =
     (case buildGraph md5hex query neighborhoods of
        BuildPanic s \<Rightarrow> Panic
      | Built s \<Rightarrow>
          (case findMinDistanceBetweenNodes edgesOrder addFloat (graph s) of
             (optimalNeighborhood, Some err) \<Rightarrow> Returned (zeroNeighborhood, Some err)
           | (optimalNeighborhood, None) \<Rightarrow> Returned (optimalNeighborhood, None)))"

section \<open>FindBestNeighborhood\<close>

text \<open>Lines 176 to 183: for every name of the tie list, every input record with that name.\<close>

definition highestOccurrenceNeighborhoods ::
  "string list \<Rightarrow> Neighborhood list \<Rightarrow> Neighborhood list" where
  "highestOccurrenceNeighborhoods neighborhoodNames neighborhoods =
     concat (map (\<lambda>neighborhoodName.
                    filter (\<lambda>neighborhood. neighborhoodName = Name neighborhood) neighborhoods)
               neighborhoodNames)"

text \<open>
  \<open>frequencyOrder\<close> is the order in which \<open>getMaxHeap\<close> ranges over the frequency
  table, \<open>edgesOrder\<close> the one in which \<open>findMinDistanceBetweenNodes\<close> ranges over
  \<open>graph.edges\<close>, \<open>addFloat\<close> the addition of \<open>float64\<close>.
\<close>

definition FindBestNeighborhood ::
  "string list \<Rightarrow> string list \<Rightarrow> (float64 \<Rightarrow> float64 \<Rightarrow> float64) \<Rightarrow> (string \<Rightarrow> string)
     \<Rightarrow> distanceQuery \<Rightarrow> Neighborhood list \<Rightarrow> (Neighborhood \<times> error option) outcome" where
  "FindBestNeighborhood frequencyOrder edgesOrder addFloat md5hex query neighborhoods =
     (case findNeighborhoodWithHighestOccurrence frequencyOrder neighborhoods of
        Panic \<Rightarrow> Panic
      | Returned (neighborhoodNames, Some err) \<Rightarrow> Returned (zeroNeighborhood, Some err)
      | Returned (neighborhoodNames, None) \<Rightarrow>
          (case findNeighborhoodWithLeastDistanceToAllOtherNeighborhoods edgesOrder addFloat md5hex
                  query (highestOccurrenceNeighborhoods neighborhoodNames neighborhoods) of
             Panic \<Rightarrow> Panic
           | Returned (optimalNeighborhoodName, None) \<Rightarrow> Returned (optimalNeighborhoodName, None)
           | Returned (optimalNeighborhoodName, Some err) \<Rightarrow>
               Returned (zeroNeighborhood,
                 Some (NoNeighborhoodFoundError
                   ''Unable to resolve neighborhood after attempting to find best match.''))))"

section \<open>Example inputs\<close>

text \<open>
  Candidates for the concrete runs below. \<open>nbA2\<close> has the name of \<open>nbA\<close> but lies in
  another city.
\<close>

definition candidate :: "string \<Rightarrow> string \<Rightarrow> real \<Rightarrow> real \<Rightarrow> Neighborhood" where
  "candidate n c lat lon =
     \<lparr>Name = n, City = c, StateOrProvinceName = ''ST'', Country = ''US'',
      Latitude = Finite lat, Longitude = Finite lon\<rparr>"

definition nbA :: Neighborhood where "nbA = candidate ''A'' ''X'' 0 1"
definition nbB :: Neighborhood where "nbB = candidate ''B'' ''X'' 0 2"
definition nbC :: Neighborhood where "nbC = candidate ''C'' ''X'' 0 3"
definition nbA2 :: Neighborhood where "nbA2 = candidate ''A'' ''Y'' 5 5"

text \<open>
  A database in which A and B are 100 m apart, A and C 100 m, B and C 300 m (the points
  are told apart by their longitudes), and one whose every query fails.
\<close>

definition scenarioQuery :: distanceQuery where
  "scenarioQuery p1 p2 =
     Inr (if (fst p1 = Finite 2 \<and> fst p2 = Finite 3) \<or> (fst p1 = Finite 3 \<and> fst p2 = Finite 2)
          then Finite 300 else Finite 100)"

definition failingQuery :: distanceQuery where
  "failingQuery p1 p2 = Inl (QueryError ''connection refused'')"

text \<open>
  An addition for the concrete runs: the one of \<open>float64\<close>, but exact on finite values
  (the sums of the runs below are small whole numbers, which \<open>float64\<close> adds exactly).
\<close>

fun plainAdd :: "float64 \<Rightarrow> float64 \<Rightarrow> float64" where
  "plainAdd (Finite a) (Finite b) = Finite (a + b)"
| "plainAdd NaN y = NaN"
| "plainAdd x NaN = NaN"
| "plainAdd PosInf NegInf = NaN"
| "plainAdd NegInf PosInf = NaN"
| "plainAdd PosInf y = PosInf"
| "plainAdd x PosInf = PosInf"
| "plainAdd NegInf y = NegInf"
| "plainAdd x NegInf = NegInf"

text \<open>A digest for the concrete runs: the joined names themselves.\<close>

definition plainKey :: "string \<Rightarrow> string" where
  "plainKey s = s"

text \<open>A graph whose \<open>edges\<close> map has been made, and is empty.\<close>

definition allocatedGraph :: Graph where
  "allocatedGraph = \<lparr>nodes = [], edges = Some Map.empty\<rparr>"

text \<open>The state in which the graph construction ended, whichever way it ended.\<close>

definition finalState :: "buildOutcome \<Rightarrow> BuildState" where
  "finalState r = (case r of BuildPanic s \<Rightarrow> s | Built s \<Rightarrow> s)"

text \<open>\<open>graph.edges[k]\<close>: the edges stored under a name, none for a missing key or a nil map.\<close>

definition edgesAt :: "Graph \<Rightarrow> string \<Rightarrow> Edge list" where
  "edgesAt g k = (case edges g of None \<Rightarrow> [] | Some m \<Rightarrow> (case m k of None \<Rightarrow> [] | Some es \<Rightarrow> es))"

section \<open>Notions used in the statements\<close>



text \<open>
  The sum of the weights of the edges stored under the name of a node: starting from 0,
  the weights are added one after the other in the order of the slice.
\<close>

definition sumFrom :: "(float64 \<Rightarrow> float64 \<Rightarrow> float64) \<Rightarrow> Edge list \<Rightarrow> float64 \<Rightarrow> float64" where
  "sumFrom addFloat es start = fold (\<lambda>e acc. addFloat acc (distanceInMeters e)) es start"

definition nodeSum :: "(float64 \<Rightarrow> float64 \<Rightarrow> float64) \<Rightarrow> Graph \<Rightarrow> Neighborhood \<Rightarrow> float64" where
  "nodeSum addFloat g node = sumFrom addFloat (edgesAt g (Name node)) (Finite 0)"

text \<open>A graph of two nodes with the same distance sum, 500 each.\<close>

definition tiedGraph :: Graph where
  "tiedGraph =
     \<lparr>nodes = [nbA, nbB],
      edges = Some [''A'' \<mapsto> [\<lparr>sourceNode = nbA, targetNode = nbA, distanceInMeters = Finite 500\<rparr>],
                    ''B'' \<mapsto> [\<lparr>sourceNode = nbB, targetNode = nbB, distanceInMeters = Finite 500\<rparr>]]\<rparr>"

text \<open>A graph of two nodes whose distance sums are \<open>+Inf\<close> and NaN.\<close>

definition farGraph :: Graph where
  "farGraph =
     \<lparr>nodes = [nbA, nbB],
      edges = Some [''A'' \<mapsto> [\<lparr>sourceNode = nbA, targetNode = nbA, distanceInMeters = PosInf\<rparr>],
                    ''B'' \<mapsto> [\<lparr>sourceNode = nbB, targetNode = nbB, distanceInMeters = NaN\<rparr>]]\<rparr>"

section \<open>Lemmas\<close>

declare up.simps [simp del]
declare sameFrequencyLoop.simps [simp del]

lemmas frequencyDefs =
  findNeighborhoodWithHighestOccurrence_def getMaxHeap_def rangeMap_def List.map_filter_def
  heapPush_def Push_def Len_def Less_def Swap_def Pop_def findNeighborhoodsWithSameFrequency_def
  up.simps sameFrequencyLoop.simps Let_def

lemmas buildDefs =
  buildGraph_def buildGraphFrom_def zeroGraph_def composeDifferingNeighborhoodNamesSlice_def
  cachedDistance_def appendEdge_def generateNeighborhoodCacheKey_def
  getDistanceBetweenTwoCoordinates_def Let_def

lemmas exampleDefs =
  candidate_def nbA_def nbB_def nbC_def nbA2_def scenarioQuery_def failingQuery_def plainKey_def

subsection \<open>Graph construction with a nil edge map\<close>

lemma edgeLoop_nil_map:
  "edges (graph s) = None \<Longrightarrow> remaining \<noteq> [] \<Longrightarrow>
     \<exists>s'. edgeLoop md5hex query neighborhood remaining s = BuildPanic s'"
  by (cases remaining)
     (auto simp: cachedDistance_def appendEdge_def Let_def split: option.splits prod.splits)


lemma nodeLoop_panics:
  assumes "edges (graph s) = None"
    and "x \<in> set todo" and "y \<in> set allNeighborhoods" and "Name x \<noteq> Name y"
    and "set todo \<subseteq> set allNeighborhoods"
  shows "\<exists>s'. nodeLoop md5hex query allNeighborhoods todo s = BuildPanic s'"
  using assms
proof (induction todo arbitrary: s)
  case Nil
  then show ?case by simp
next
  case (Cons n rest)
  let ?s1 = "s\<lparr>graph := (graph s)\<lparr>nodes := nodes (graph s) @ [n]\<rparr>\<rparr>"
  let ?rem = "composeDifferingNeighborhoodNamesSlice (Name n) allNeighborhoods"
  have nil: "edges (graph ?s1) = None" using Cons.prems(1) by simp
  show ?case
  proof (cases "?rem = []")
    case True
    then have same: "\<forall>z \<in> set allNeighborhoods. Name z = Name n"
      by (auto simp: composeDifferingNeighborhoodNamesSlice_def filter_empty_conv)
    then have "Name y = Name n" using Cons.prems(3) by blast
    moreover have "x \<in> set allNeighborhoods" using Cons.prems(2,5) by blast
    then have "Name x = Name n" using same by blast
    ultimately show ?thesis using Cons.prems(4) by simp
  next
    case False
    from edgeLoop_nil_map[OF nil False]
    obtain s' where "edgeLoop md5hex query n ?rem ?s1 = BuildPanic s'" by blast
    then show ?thesis by (simp add: Let_def)
  qed
qed

lemma buildGraph_panics:
  assumes "x \<in> set neighborhoods" and "y \<in> set neighborhoods" and "Name x \<noteq> Name y"
  shows "\<exists>s'. buildGraph md5hex query neighborhoods = BuildPanic s'"
  unfolding buildGraph_def buildGraphFrom_def
  by (rule nodeLoop_panics[OF _ assms(1) assms(2) assms(3)]) (simp_all add: zeroGraph_def)


lemma nodeLoop_one_name:
  assumes "\<forall>z \<in> set allNeighborhoods. Name z = k" and "set todo \<subseteq> set allNeighborhoods"
  shows "nodeLoop md5hex query allNeighborhoods todo s
           = Built (s\<lparr>graph := (graph s)\<lparr>nodes := nodes (graph s) @ todo\<rparr>\<rparr>)"
  using assms
proof (induction todo arbitrary: s)
  case Nil
  then show ?case by simp
next
  case (Cons n rest)
  have "composeDifferingNeighborhoodNamesSlice (Name n) allNeighborhoods = []"
    using Cons.prems by (auto simp: composeDifferingNeighborhoodNamesSlice_def filter_empty_conv)
  then have "nodeLoop md5hex query allNeighborhoods (n # rest) s
      = nodeLoop md5hex query allNeighborhoods rest
          (s\<lparr>graph := (graph s)\<lparr>nodes := nodes (graph s) @ [n]\<rparr>\<rparr>)"
    by (simp add: Let_def)
  also have "\<dots> = Built (s\<lparr>graph := (graph s)\<lparr>nodes := nodes (graph s) @ (n # rest)\<rparr>\<rparr>)"
    using Cons.prems by (subst Cons.IH) simp_all
  finally show ?case .
qed

lemma buildGraph_one_name:
  assumes "\<forall>z \<in> set neighborhoods. Name z = k"
  shows "buildGraph md5hex query neighborhoods
           = Built \<lparr>graph = \<lparr>nodes = neighborhoods, edges = None\<rparr>,
                    distanceCache = Map.empty, providerCalls = []\<rparr>"
  unfolding buildGraph_def buildGraphFrom_def
  by (subst nodeLoop_one_name[OF assms]) (simp_all add: zeroGraph_def)


lemma fold_selectStep_constant:
  "fold (selectStep Map.empty) xs (Finite 0, b) = (Finite 0, b)"
  by (induction xs) (simp_all add: selectStep_def sumOf_def)

lemma findMin_nil_edges:
  "findMinDistanceBetweenNodes edgesOrder addFloat \<lparr>nodes = ns, edges = None\<rparr>
     = ((case ns of [] \<Rightarrow> zeroNeighborhood | n # _ \<Rightarrow> n), None)"
proof (cases ns)
  case Nil
  then show ?thesis by (simp add: findMinDistanceBetweenNodes_def distanceSums_def)
next
  case (Cons n rest)
  show ?thesis
  proof (cases rest)
    case Nil
    with Cons show ?thesis by (simp add: findMinDistanceBetweenNodes_def)
  next
    case (Cons n' rest')
    have "fold (selectStep Map.empty) rest' (Finite 0, n) = (Finite 0, n)"
      by (rule fold_selectStep_constant)
    with Cons \<open>ns = n # rest\<close> show ?thesis
      by (simp add: findMinDistanceBetweenNodes_def distanceSums_def selectStep_def sumOf_def)
  qed
qed

subsection \<open>The names the frequency step returns\<close>

lemma dom_frequencyTable: "dom (frequencyTable m ns) = dom m \<union> Name ` set ns"
  by (induction ns arbitrary: m) (auto split: option.splits)

lemma rangeMap_lookup: "(k, v) \<in> set (rangeMap order m) \<Longrightarrow> m k = Some v"
  by (auto simp: rangeMap_def List.map_filter_def)

lemma up_set: "j < length h \<Longrightarrow> set (up h j) = set h \<and> length (up h j) = length h"
proof (induction h j rule: up.induct)
  case (1 h j)
  let ?i = "(j - 1) div 2"
  show ?case
  proof (cases "?i = j \<or> \<not> Less h j ?i")
    case True
    then show ?thesis by (subst (1 2) up.simps) (simp add: Let_def)
  next
    case False
    have lt: "?i < length h" using "1.prems" by simp
    have sw: "set (Swap h ?i j) = set h" "length (Swap h ?i j) = length h"
      using lt "1.prems" by (simp_all add: Swap_def set_swap)
    have "set (up (Swap h ?i j) ?i) = set (Swap h ?i j)
            \<and> length (up (Swap h ?i j) ?i) = length (Swap h ?i j)"
      using False lt sw by (intro "1.IH") simp_all
    moreover have "up h j = up (Swap h ?i j) ?i"
      using False by (subst up.simps) (simp add: Let_def)
    ultimately show ?thesis using sw by simp
  qed
qed

lemma heapPush_set: "set (heapPush h x) = insert x (set h)"
  using up_set[of "length h" "h @ [x]"] by (simp add: heapPush_def Push_def Len_def)

lemma foldl_heapPush_set: "set (foldl heapPush h xs) = set h \<union> set xs"
  by (induction xs arbitrary: h) (simp_all add: heapPush_set)

lemma sameFrequencyLoop_names:
  "sameFrequencyLoop i h maxCount acc = Returned names \<Longrightarrow> set names \<subseteq> set acc \<union> name ` set h"
proof (induction i h maxCount acc rule: sameFrequencyLoop.induct)
  case (1 i h maxCount acc)
  show ?case
  proof (cases "i < Len h")
    case False
    with "1.prems" show ?thesis by (subst (asm) sameFrequencyLoop.simps) auto
  next
    case True
    then have ne: "h \<noteq> []" by (auto simp: Len_def)
    then have pop: "Pop h = Returned (last h, butlast h)" by (simp add: Pop_def)
    show ?thesis
    proof (cases "count (last h) < maxCount")
      case lt: True
      with "1.prems" True pop show ?thesis by (subst (asm) sameFrequencyLoop.simps) auto
    next
      case ge: False
      have "sameFrequencyLoop (i + 1) (butlast h) (count (last h)) (acc @ [name (last h)])
              = Returned names"
        using "1.prems" True pop ge by (subst (asm) sameFrequencyLoop.simps) simp
      from "1.IH"[OF True pop refl ge this]
      have "set names \<subseteq> set (acc @ [name (last h)]) \<union> name ` set (butlast h)" .
      moreover have "set h = set (butlast h @ [last h])" using ne by simp
      then have "name ` set h = insert (name (last h)) (name ` set (butlast h))"
        by (simp only: set_append list.set Un_insert_right Un_empty_right image_insert)
      ultimately show ?thesis by auto
    qed
  qed
qed

lemma sameFrequencyLoop_no_panic: "sameFrequencyLoop i h maxCount acc \<noteq> Panic"
proof (induction i h maxCount acc rule: sameFrequencyLoop.induct)
  case (1 i h maxCount acc)
  show ?case
  proof (cases "i < Len h")
    case False
    then show ?thesis by (subst sameFrequencyLoop.simps) simp
  next
    case True
    then have pop: "Pop h = Returned (last h, butlast h)" by (auto simp: Pop_def Len_def)
    show ?thesis
    proof (cases "count (last h) < maxCount")
      case lt: True
      with True pop show ?thesis by (subst sameFrequencyLoop.simps) simp
    next
      case ge: False
      from "1.IH"[OF True pop refl ge] True pop ge
      show ?thesis by (subst sameFrequencyLoop.simps) simp
    qed
  qed
qed

lemma findNeighborhoodsWithSameFrequency_names:
  "findNeighborhoodsWithSameFrequency h = Returned (names, err)
     \<Longrightarrow> set names \<subseteq> name ` set h \<and> err = None"
proof -
  assume r: "findNeighborhoodsWithSameFrequency h = Returned (names, err)"
  consider "Len h = 0" | "Len h = 1" | "Len h \<noteq> 0" "Len h \<noteq> 1" by blast
  then show ?thesis
  proof cases
    case 1
    with r show ?thesis by (simp add: findNeighborhoodsWithSameFrequency_def)
  next
    case 2
    then obtain v where "h = [v]" by (cases h) (auto simp: Len_def)
    with r show ?thesis by (auto simp: findNeighborhoodsWithSameFrequency_def Len_def Pop_def)
  next
    case 3
    with r obtain ns where "sameFrequencyLoop 0 h 0 [] = Returned ns" "names = ns" "err = None"
      by (auto simp: findNeighborhoodsWithSameFrequency_def split: outcome.splits)
    with sameFrequencyLoop_names[of 0 h 0 "[]" ns] show ?thesis by simp
  qed
qed

lemma getMaxHeap_names: "name ` set (getMaxHeap order m) \<subseteq> dom m"
proof -
  have "set (getMaxHeap order m) = set (map (\<lambda>(k, v). \<lparr>name = k, count = v\<rparr>) (rangeMap order m))"
    by (simp add: getMaxHeap_def foldl_heapPush_set)
  then show ?thesis by (auto dest: rangeMap_lookup)
qed

lemma tie_names_subset:
  assumes "findNeighborhoodWithHighestOccurrence order neighborhoods = Returned (names, err)"
  shows "set names \<subseteq> Name ` set neighborhoods \<and> err = None"
proof -
  let ?h = "getMaxHeap order (frequencyTable Map.empty neighborhoods)"
  from assms obtain ns e where r: "findNeighborhoodsWithSameFrequency ?h = Returned (ns, e)"
    by (auto simp: findNeighborhoodWithHighestOccurrence_def Let_def split: outcome.splits)
  from findNeighborhoodsWithSameFrequency_names[OF r]
  have ns: "set ns \<subseteq> name ` set ?h" and e: "e = None" by simp_all
  from assms r e have "names = ns" "err = None"
    by (simp_all add: findNeighborhoodWithHighestOccurrence_def Let_def)
  moreover have "name ` set ?h \<subseteq> Name ` set neighborhoods"
    using getMaxHeap_names[of order "frequencyTable Map.empty neighborhoods"]
    by (simp add: dom_frequencyTable)
  ultimately show ?thesis using ns by blast
qed

lemma findNeighborhoodWithHighestOccurrence_no_panic:
  "findNeighborhoodWithHighestOccurrence order neighborhoods \<noteq> Panic"
proof -
  have "findNeighborhoodsWithSameFrequency h \<noteq> Panic" for h
    using sameFrequencyLoop_no_panic[of 0 h 0 "[]"]
    by (cases h) (auto simp: findNeighborhoodsWithSameFrequency_def Len_def Pop_def
          split: outcome.splits)
  then show ?thesis
    by (auto simp: findNeighborhoodWithHighestOccurrence_def Let_def
          split: outcome.splits prod.splits option.splits)
qed

subsection \<open>Two names in the tie list\<close>

lemma FindBestNeighborhood_panics:
  assumes "findNeighborhoodWithHighestOccurrence frequencyOrder neighborhoods
             = Returned (neighborhoodNames, err)"
    and "a \<in> set neighborhoodNames" and "b \<in> set neighborhoodNames" and "a \<noteq> b"
  shows "FindBestNeighborhood frequencyOrder edgesOrder addFloat md5hex query neighborhoods = Panic"
proof -
  from tie_names_subset[OF assms(1)]
  have sub: "set neighborhoodNames \<subseteq> Name ` set neighborhoods" and err: "err = None"
    by simp_all
  let ?hs = "highestOccurrenceNeighborhoods neighborhoodNames neighborhoods"
  from sub assms(2) obtain x where x: "x \<in> set neighborhoods" "Name x = a" by blast
  from sub assms(3) obtain y where y: "y \<in> set neighborhoods" "Name y = b" by blast
  have "x \<in> set ?hs" using x assms(2)
    by (auto simp: highestOccurrenceNeighborhoods_def)
  moreover have "y \<in> set ?hs" using y assms(3)
    by (auto simp: highestOccurrenceNeighborhoods_def)
  moreover have "Name x \<noteq> Name y" using x y assms(4) by simp
  ultimately obtain s' where "buildGraph md5hex query ?hs = BuildPanic s'"
    using buildGraph_panics by blast
  then show ?thesis using assms(1) err
    by (simp add: FindBestNeighborhood_def
          findNeighborhoodWithLeastDistanceToAllOtherNeighborhoods_def)
qed

lemma three_way_tie_any_order:
  assumes "frequencyOrder \<in> {[''A'', ''B'', ''C''], [''A'', ''C'', ''B''], [''B'', ''A'', ''C''],
        [''B'', ''C'', ''A''], [''C'', ''A'', ''B''], [''C'', ''B'', ''A'']}"
  shows "FindBestNeighborhood frequencyOrder edgesOrder addFloat md5hex query
     [nbA, nbB, nbC, nbA, nbB, nbC, nbA, nbB, nbC] = Panic"
proof -
  let ?in = "[nbA, nbB, nbC, nbA, nbB, nbC, nbA, nbB, nbC]"
  have "\<exists>a b. findNeighborhoodWithHighestOccurrence frequencyOrder ?in = Returned ([a, b], None) \<and> a \<noteq> b"
    using assms by (elim insertE emptyE) (simp_all add: frequencyDefs exampleDefs)
  then obtain a b where
    h: "findNeighborhoodWithHighestOccurrence frequencyOrder ?in = Returned ([a, b], None)"
    and ne: "a \<noteq> b" by blast
  show ?thesis
    by (rule FindBestNeighborhood_panics[OF h, of a b]) (simp_all add: ne)
qed

subsection \<open>One name in the tie list\<close>

lemma FindBestNeighborhood_one_name:
  assumes "findNeighborhoodWithHighestOccurrence frequencyOrder neighborhoods
             = Returned ([k], err)"
  shows "FindBestNeighborhood frequencyOrder edgesOrder addFloat md5hex query neighborhoods
           = Returned
               ((case filter (\<lambda>neighborhood. k = Name neighborhood) neighborhoods of
                   [] \<Rightarrow> zeroNeighborhood
                 | first # others \<Rightarrow> first),
                None)"
proof -
  let ?hs = "filter (\<lambda>neighborhood. k = Name neighborhood) neighborhoods"
  have err: "err = None" using tie_names_subset[OF assms] by simp
  have hs: "highestOccurrenceNeighborhoods [k] neighborhoods = ?hs"
    by (simp add: highestOccurrenceNeighborhoods_def)
  have "\<forall>z \<in> set ?hs. Name z = k" by simp
  from buildGraph_one_name[OF this, of md5hex query]
  have "findNeighborhoodWithLeastDistanceToAllOtherNeighborhoods edgesOrder addFloat md5hex query ?hs
          = Returned ((case ?hs of [] \<Rightarrow> zeroNeighborhood | first # others \<Rightarrow> first), None)"
    by (simp add: findNeighborhoodWithLeastDistanceToAllOtherNeighborhoods_def findMin_nil_edges)
  then show ?thesis using assms err hs by (simp add: FindBestNeighborhood_def)
qed

subsection \<open>What a completed graph construction holds\<close>

lemma buildGraph_Built_nodes:
  assumes "buildGraph md5hex query neighborhoods = Built s"
  shows "nodes (graph s) = neighborhoods"
proof (cases "\<exists>x \<in> set neighborhoods. \<exists>y \<in> set neighborhoods. Name x \<noteq> Name y")
  case True
  then obtain s' where "buildGraph md5hex query neighborhoods = BuildPanic s'"
    using buildGraph_panics by blast
  with assms show ?thesis by simp
next
  case False
  have "\<forall>z \<in> set neighborhoods. Name z = Name (hd neighborhoods)"
  proof
    fix z
    assume z: "z \<in> set neighborhoods"
    then have "hd neighborhoods \<in> set neighborhoods" by (cases neighborhoods) simp_all
    with False z show "Name z = Name (hd neighborhoods)" by blast
  qed
  from buildGraph_one_name[OF this, of md5hex query] assms
  have "s = \<lparr>graph = \<lparr>nodes = neighborhoods, edges = None\<rparr>,
             distanceCache = Map.empty, providerCalls = []\<rparr>"
    by simp
  then show ?thesis by simp
qed

subsection \<open>No error is ever returned\<close>

lemma findMin_no_error: "snd (findMinDistanceBetweenNodes edgesOrder addFloat g) = None"
  by (simp add: findMinDistanceBetweenNodes_def Let_def split: list.splits prod.splits)

lemma FindBestNeighborhood_no_error:
  "FindBestNeighborhood frequencyOrder edgesOrder addFloat md5hex query neighborhoods
     \<noteq> Returned (n, Some err)"
proof
  assume r: "FindBestNeighborhood frequencyOrder edgesOrder addFloat md5hex query neighborhoods
     = Returned (n, Some err)"
  obtain names where f: "findNeighborhoodWithHighestOccurrence frequencyOrder neighborhoods
      = Returned (names, None)"
    using findNeighborhoodWithHighestOccurrence_no_panic[of frequencyOrder neighborhoods]
      tie_names_subset[of frequencyOrder neighborhoods]
    by (cases "findNeighborhoodWithHighestOccurrence frequencyOrder neighborhoods") auto
  let ?hs = "highestOccurrenceNeighborhoods names neighborhoods"
  show False
  proof (cases "buildGraph md5hex query ?hs")
    case (BuildPanic s)
    with r f show False
      by (simp add: FindBestNeighborhood_def
            findNeighborhoodWithLeastDistanceToAllOtherNeighborhoods_def)
  next
    case (Built s)
    obtain best where "findMinDistanceBetweenNodes edgesOrder addFloat (graph s) = (best, None)"
      using findMin_no_error[of edgesOrder addFloat "graph s"]
      by (cases "findMinDistanceBetweenNodes edgesOrder addFloat (graph s)") simp
    with r f Built show False
      by (simp add: FindBestNeighborhood_def
            findNeighborhoodWithLeastDistanceToAllOtherNeighborhoods_def)
  qed
qed

subsection \<open>The distance cache\<close>









subsection \<open>The distance sums and the selection loop\<close>

lemma lessFloat_below:
  assumes "lessFloat x b" and "\<not> lessFloat c b" and "lessFloat c PosInf"
  shows "lessFloat x c"
  using assms by (cases x; cases b; cases c) simp_all

lemma lessFloat_asym: "lessFloat x c \<Longrightarrow> \<not> lessFloat c x"
  by (cases x; cases c) simp_all

lemma lessFloat_irrefl: "\<not> lessFloat x x"
  by (cases x) simp_all

lemma sumOf_addEdges:
  "sumOf (addEdges addFloat k es totals) k'
     = (if k' = k then sumFrom addFloat es (sumOf totals k) else sumOf totals k')"
proof (induction es arbitrary: totals)
  case Nil
  then show ?case by (simp add: addEdges_def sumFrom_def)
next
  case (Cons e es)
  have "addEdges addFloat k (e # es) totals
          = addEdges addFloat k es (totals(k \<mapsto> addFloat (sumOf totals k) (distanceInMeters e)))"
    by (simp add: addEdges_def)
  moreover have "sumFrom addFloat (e # es) (sumOf totals k)
          = sumFrom addFloat es (addFloat (sumOf totals k) (distanceInMeters e))"
    by (simp add: sumFrom_def)
  ultimately show ?case using Cons.IH by (simp add: sumOf_def)
qed

lemma sumOf_reset:
  "sumOf (case totals k of Some v \<Rightarrow> totals(k \<mapsto> Finite 0) | None \<Rightarrow> totals) k'
     = (if k' = k then Finite 0 else sumOf totals k')"
  by (simp add: sumOf_def split: option.splits)

lemma sumOf_fold_range:
  assumes "\<forall>p \<in> set kvs. m (fst p) = Some (snd p)"
  shows "sumOf (fold (\<lambda>(source, edgeList) totals.
                  addEdges addFloat source edgeList
                    (case totals source of
                       Some v \<Rightarrow> totals(source \<mapsto> Finite 0)
                     | None \<Rightarrow> totals))
            kvs totals) k'
         = (if k' \<in> fst ` set kvs then sumFrom addFloat (the (m k')) (Finite 0)
            else sumOf totals k')"
  using assms
proof (induction kvs arbitrary: totals)
  case Nil
  then show ?case by simp
next
  case (Cons p kvs)
  obtain k es where p: "p = (k, es)" by (cases p)
  have mk: "m k = Some es" using Cons.prems p by simp
  have rest: "\<forall>p \<in> set kvs. m (fst p) = Some (snd p)" using Cons.prems by simp
  let ?t = "addEdges addFloat k es
              (case totals k of Some v \<Rightarrow> totals(k \<mapsto> Finite 0) | None \<Rightarrow> totals)"
  have t: "sumOf ?t k' = (if k' = k then sumFrom addFloat es (Finite 0) else sumOf totals k')"
    by (simp add: sumOf_addEdges sumOf_reset)
  show ?case
  proof (cases "k' \<in> fst ` set kvs")
    case True
    then show ?thesis using Cons.IH[OF rest, of ?t] p by simp
  next
    case False
    then show ?thesis using Cons.IH[OF rest, of ?t] p t mk by simp
  qed
qed

lemma rangeMap_keys: "fst ` set (rangeMap order m) = set order \<inter> dom m"
  by (induction order) (auto simp: rangeMap_def List.map_filter_simps split: option.splits)

lemma sumOf_distanceSums:
  assumes "case edges g of None \<Rightarrow> True | Some m \<Rightarrow> iterationOrder edgesOrder m"
  shows "sumOf (distanceSums edgesOrder addFloat (edges g)) (Name node) = nodeSum addFloat g node"
proof (cases "edges g")
  case None
  then show ?thesis
    by (simp add: distanceSums_def nodeSum_def sumFrom_def edgesAt_def sumOf_def)
next
  case (Some m)
  then have ord: "set edgesOrder = dom m" using assms by (simp add: iterationOrder_def)
  have cons: "\<forall>p \<in> set (rangeMap edgesOrder m). m (fst p) = Some (snd p)"
    using rangeMap_lookup[of _ _ edgesOrder m] by auto
  have keys: "fst ` set (rangeMap edgesOrder m) = dom m"
    using ord by (simp add: rangeMap_keys)
  show ?thesis
  proof (cases "m (Name node)")
    case None
    then have "Name node \<notin> dom m" by (simp add: domIff)
    then show ?thesis
      using Some None sumOf_fold_range[OF cons, of addFloat Map.empty "Name node"] keys
      by (simp add: distanceSums_def nodeSum_def sumFrom_def edgesAt_def sumOf_def)
  next
    case (Some es)
    then have "Name node \<in> dom m" by (simp add: domIff)
    then show ?thesis
      using \<open>edges g = Some m\<close> Some
        sumOf_fold_range[OF cons, of addFloat Map.empty "Name node"] keys
      by (simp add: distanceSums_def nodeSum_def edgesAt_def)
  qed
qed

text \<open>
  A sum that is \<open>+Inf\<close> or NaN is never below \<open>minValue\<close>: when no node has another
  sum, the loop leaves \<open>bestNeighborhood\<close> at its zero value, although the graph has
  nodes.
\<close>

lemma no_node_selected_for_infinite_sums:
  "findMinDistanceBetweenNodes [''A'', ''B''] plainAdd farGraph = (zeroNeighborhood, None)"
  by (simp add: findMinDistanceBetweenNodes_def farGraph_def distanceSums_def rangeMap_def
        List.map_filter_simps addEdges_def sumOf_def selectStep_def exampleDefs)

lemma selectStep_eq:
  "selectStep totals x (v, b)
     = (if lessFloat (sumOf totals (Name x)) v then (sumOf totals (Name x), x) else (v, b))"
  by (simp add: selectStep_def Let_def)

lemma fold_selectStep_first_min:
  assumes f: "\<And>n. f n = sumOf totals (Name n)"
    and below: "\<forall>x \<in> set (L @ xs). lessFloat (f x) PosInf"
    and "i < length L"
    and "\<forall>j < length L. \<not> lessFloat (f (L ! j)) (f (L ! i))"
    and "\<forall>j < i. lessFloat (f (L ! i)) (f (L ! j))"
  shows "\<exists>k < length (L @ xs).
           fold (selectStep totals) xs (f (L ! i), L ! i) = (f ((L @ xs) ! k), (L @ xs) ! k)
           \<and> (\<forall>j < length (L @ xs). \<not> lessFloat (f ((L @ xs) ! j)) (f ((L @ xs) ! k)))
           \<and> (\<forall>j < k. lessFloat (f ((L @ xs) ! k)) (f ((L @ xs) ! j)))"
  using assms(2-)
proof (induction xs arbitrary: L i)
  case Nil
  then show ?case by auto
next
  case (Cons x xs)
  let ?L = "L @ [x]"
  have app: "?L @ xs = L @ x # xs" by simp
  have below': "\<forall>y \<in> set (?L @ xs). lessFloat (f y) PosInf" using Cons.prems(1) by simp
  have inL: "lessFloat (f (L ! j)) PosInf" if "j < length L" for j
    using Cons.prems(1) that by simp
  show ?case
  proof (cases "lessFloat (f x) (f (L ! i))")
    case True
    have st: "selectStep totals x (f (L ! i), L ! i) = (f (?L ! length L), ?L ! length L)"
      using True by (simp add: selectStep_eq f[symmetric])
    have 1: "length L < length ?L" by simp
    have lt: "lessFloat (f x) (f (L ! j))" if "j < length L" for j
    proof -
      have "\<not> lessFloat (f (L ! j)) (f (L ! i))" using Cons.prems(3) that by blast
      from True this inL[OF that] show ?thesis by (rule lessFloat_below)
    qed
    have 2: "\<forall>j < length ?L. \<not> lessFloat (f (?L ! j)) (f (?L ! length L))"
    proof (intro allI impI)
      fix j assume "j < length ?L"
      then consider "j < length L" | "j = length L" by force
      then show "\<not> lessFloat (f (?L ! j)) (f (?L ! length L))"
      proof cases
        case 1
        with lt[OF 1] show ?thesis by (simp add: nth_append lessFloat_asym)
      next
        case 2
        then show ?thesis by (simp add: lessFloat_irrefl)
      qed
    qed
    have 3: "\<forall>j < length L. lessFloat (f (?L ! length L)) (f (?L ! j))"
      using lt by (simp add: nth_append)
    from Cons.IH[OF below' 1 2 3] show ?thesis
      unfolding app by (simp only: fold_simps st o_apply)
  next
    case False
    have st: "selectStep totals x (f (L ! i), L ! i) = (f (?L ! i), ?L ! i)"
      using False Cons.prems(2) by (simp add: selectStep_eq f[symmetric] nth_append)
    have 1: "i < length ?L" using Cons.prems(2) by simp
    have 2: "\<forall>j < length ?L. \<not> lessFloat (f (?L ! j)) (f (?L ! i))"
    proof (intro allI impI)
      fix j assume "j < length ?L"
      then consider "j < length L" | "j = length L" by force
      then show "\<not> lessFloat (f (?L ! j)) (f (?L ! i))"
      proof cases
        case 1
        then have "\<not> lessFloat (f (L ! j)) (f (L ! i))" using Cons.prems(3) by blast
        with 1 Cons.prems(2) show ?thesis by (simp add: nth_append)
      next
        case 2
        with False Cons.prems(2) show ?thesis by (simp add: nth_append)
      qed
    qed
    have 3: "\<forall>j < i. lessFloat (f (?L ! i)) (f (?L ! j))"
    proof (intro allI impI)
      fix j assume j: "j < i"
      then have "lessFloat (f (L ! i)) (f (L ! j))" using Cons.prems(4) by blast
      with j Cons.prems(2) show "lessFloat (f (?L ! i)) (f (?L ! j))" by (simp add: nth_append)
    qed
    from Cons.IH[OF below' 1 2 3] show ?thesis
      unfolding app by (simp only: fold_simps st o_apply)
  qed
qed

section \<open>The claims\<close>

text \<open>
  C1 (fails on the code). For a frequency tie across at least two names,
  \<open>FindBestNeighborhood\<close> should return the tied neighborhood with the least sum of
  distances to the other tied ones. On the three-way tie of A, B and C, three records
  each, with the distances A-B 100, A-C 100 and B-C 300, the answer should be A. In every
  order in which the runtime may range over the frequency table the call ends in a panic
  instead: two names reach the graph construction, and the first edge is assigned into
  the nil map \<open>graph.edges\<close>.
\<close>

theorem three_way_tie_panics:
  "FindBestNeighborhood [''A'', ''B'', ''C''] edgesOrder addFloat plainKey scenarioQuery
     [nbA, nbB, nbC, nbA, nbB, nbC, nbA, nbB, nbC] = Panic
   \<and> FindBestNeighborhood [''A'', ''C'', ''B''] edgesOrder addFloat plainKey scenarioQuery
     [nbA, nbB, nbC, nbA, nbB, nbC, nbA, nbB, nbC] = Panic
   \<and> FindBestNeighborhood [''B'', ''A'', ''C''] edgesOrder addFloat plainKey scenarioQuery
     [nbA, nbB, nbC, nbA, nbB, nbC, nbA, nbB, nbC] = Panic
   \<and> FindBestNeighborhood [''B'', ''C'', ''A''] edgesOrder addFloat plainKey scenarioQuery
     [nbA, nbB, nbC, nbA, nbB, nbC, nbA, nbB, nbC] = Panic
   \<and> FindBestNeighborhood [''C'', ''A'', ''B''] edgesOrder addFloat plainKey scenarioQuery
     [nbA, nbB, nbC, nbA, nbB, nbC, nbA, nbB, nbC] = Panic
   \<and> FindBestNeighborhood [''C'', ''B'', ''A''] edgesOrder addFloat plainKey scenarioQuery
     [nbA, nbB, nbC, nbA, nbB, nbC, nbA, nbB, nbC] = Panic"
  by (simp add: three_way_tie_any_order)

text \<open>
  C2 (fails on the code). The frequency step should return exactly the names with the
  greatest count. For the two names A and B with one record each it returns one name
  only, in both iteration orders; for A once, B three times and C twice, ranged over in
  the order A, B, C, it returns C and B, although C does not have the greatest count.
\<close>

theorem two_way_tie_keeps_one_name:
  "findNeighborhoodWithHighestOccurrence [''A'', ''B''] [nbA, nbB] = Returned ([''B''], None)
   \<and> findNeighborhoodWithHighestOccurrence [''B'', ''A''] [nbA, nbB] = Returned ([''A''], None)
   \<and> findNeighborhoodWithHighestOccurrence [''A'', ''B'', ''C''] [nbA, nbB, nbB, nbB, nbC, nbC]
       = Returned ([''C'', ''B''], None)"
  by (simp add: frequencyDefs exampleDefs)

text \<open>
  C3 (fails on the code). For the empty input \<open>FindBestNeighborhood\<close> should fail
  with \<open>NoNeighborhoodFoundError\<close>. It does not panic, but it returns the zero
  \<open>Neighborhood\<close> together with a nil error.
\<close>

theorem empty_input_returns_zero_value:
  "FindBestNeighborhood frequencyOrder edgesOrder addFloat md5hex query []
     = Returned (zeroNeighborhood, None)"
  by (simp add: FindBestNeighborhood_def frequencyDefs highestOccurrenceNeighborhoods_def
        findNeighborhoodWithLeastDistanceToAllOtherNeighborhoods_def buildDefs
        findMinDistanceBetweenNodes_def distanceSums_def)

text \<open>
  C4 (fails on the code). Every edge of the graph should join two different nodes, and
  every two different nodes should be joined by an edge. For the tie list C, B the code
  asks for the distance of C and B, makes an edge whose two ends are both C
  (\<open>targetNode := neighborhood\<close>) and panics when it assigns into the nil map; started
  from a graph whose map exists, the same loops store one edge under each name, from C to
  C and from B to B.
\<close>

theorem edges_are_self_loops:
  "buildGraph plainKey scenarioQuery [nbC, nbB]
     = BuildPanic \<lparr>graph = \<lparr>nodes = [nbC], edges = None\<rparr>,
                   distanceCache = [''BC'' \<mapsto> Finite 300], providerCalls = [(nbC, nbB)]\<rparr>
   \<and> edgesAt (graph (finalState (buildGraphFrom allocatedGraph plainKey scenarioQuery [nbC, nbB])))
         ''C''
       = [\<lparr>sourceNode = nbC, targetNode = nbC, distanceInMeters = Finite 300\<rparr>]
   \<and> edgesAt (graph (finalState (buildGraphFrom allocatedGraph plainKey scenarioQuery [nbC, nbB])))
         ''B''
       = [\<lparr>sourceNode = nbB, targetNode = nbB, distanceInMeters = Finite 300\<rparr>]"
  by (simp add: buildDefs exampleDefs allocatedGraph_def finalState_def edgesAt_def)

text \<open>
  C5 (fails on the code). With at least two names in the tie list the call should run
  to its end without a runtime fault. Whenever the frequency step returns two different
  names, \<open>FindBestNeighborhood\<close> panics: \<open>graph.edges\<close> is never made, and the first
  edge is assigned into the nil map.
\<close>

theorem two_tied_names_panic:
  assumes "findNeighborhoodWithHighestOccurrence frequencyOrder neighborhoods
             = Returned (neighborhoodNames, err)"
    and "a \<in> set neighborhoodNames" and "b \<in> set neighborhoodNames" and "a \<noteq> b"
  shows "FindBestNeighborhood frequencyOrder edgesOrder addFloat md5hex query neighborhoods = Panic"
  using assms by (rule FindBestNeighborhood_panics)

theorem two_tied_names_panic_witness:
  "findNeighborhoodWithHighestOccurrence [''A'', ''B'', ''C''] [nbA, nbB, nbC]
       = Returned ([''C'', ''B''], None)
   \<and> FindBestNeighborhood [''A'', ''B'', ''C''] [] plainAdd plainKey scenarioQuery [nbA, nbB, nbC] = Panic"
proof -
  have h: "findNeighborhoodWithHighestOccurrence [''A'', ''B'', ''C''] [nbA, nbB, nbC]
       = Returned ([''C'', ''B''], None)"
    by (simp add: frequencyDefs exampleDefs)
  show ?thesis
    using h two_tied_names_panic[OF h, of "''C''" "''B''" "[]" plainAdd plainKey scenarioQuery] by simp
qed

text \<open>
  C6 (fails on the code; counterexample). A failure of the distance query should be
  passed on to the caller, and its result should not be cached. With a database whose
  every query fails, the graph construction for the tie list C, B stores the distance 0
  under the key of the pair and then panics; no error is returned.
\<close>

theorem provider_failure_is_cached:
  "buildGraph plainKey failingQuery [nbC, nbB]
     = BuildPanic \<lparr>graph = \<lparr>nodes = [nbC], edges = None\<rparr>,
                   distanceCache = [''BC'' \<mapsto> Finite 0], providerCalls = [(nbC, nbB)]\<rparr>
   \<and> FindBestNeighborhood [''A'', ''B'', ''C''] [] plainAdd plainKey failingQuery [nbA, nbB, nbC] = Panic"
proof -
  have "buildGraph plainKey failingQuery [nbC, nbB]
     = BuildPanic \<lparr>graph = \<lparr>nodes = [nbC], edges = None\<rparr>,
                   distanceCache = [''BC'' \<mapsto> Finite 0], providerCalls = [(nbC, nbB)]\<rparr>"
    by (simp add: buildDefs exampleDefs)
  moreover have "findNeighborhoodWithHighestOccurrence [''A'', ''B'', ''C''] [nbA, nbB, nbC]
       = Returned ([''C'', ''B''], None)"
    by (simp add: frequencyDefs exampleDefs)
  then have "FindBestNeighborhood [''A'', ''B'', ''C''] [] plainAdd plainKey failingQuery [nbA, nbB, nbC]
      = Panic"
    by (rule FindBestNeighborhood_panics[of _ _ _ _ "''C''" "''B''"]) simp_all
  ultimately show ?thesis by simp
qed

text \<open>
  C6 (as amended). When the distance query fails for a pair whose key is not in the
  cache, the error is dropped: the distance of the pair is taken to be 0, and 0 is stored
  in the cache under the key of the pair. \<open>FindBestNeighborhood\<close> never returns an
  error.
\<close>

theorem provider_error_discarded:
  assumes "query (Longitude a, Latitude a) (Longitude b, Latitude b) = Inl e"
    and "distanceCache s (generateNeighborhoodCacheKey md5hex (Name a) (Name b)) = None"
  shows "cachedDistance md5hex query a b s
           = (Finite 0, s\<lparr>distanceCache :=
                      (distanceCache s)
                        (generateNeighborhoodCacheKey md5hex (Name a) (Name b) \<mapsto> Finite 0),
                    providerCalls := providerCalls s @ [(a, b)]\<rparr>)
         \<and> FindBestNeighborhood frequencyOrder edgesOrder addFloat md5hex query neighborhoods
             \<noteq> Returned (n, Some err)"
  using assms FindBestNeighborhood_no_error
  by (simp add: cachedDistance_def getDistanceBetweenTwoCoordinates_def Let_def)

theorem provider_error_discarded_witness:
  "failingQuery (Longitude nbC, Latitude nbC) (Longitude nbB, Latitude nbB)
      = Inl (QueryError ''connection refused'')
   \<and> distanceCache \<lparr>graph = zeroGraph, distanceCache = Map.empty, providerCalls = []\<rparr>
        (generateNeighborhoodCacheKey plainKey (Name nbC) (Name nbB)) = None
   \<and> cachedDistance plainKey failingQuery nbC nbB
        \<lparr>graph = zeroGraph, distanceCache = Map.empty, providerCalls = []\<rparr>
       = (Finite 0, \<lparr>graph = zeroGraph, distanceCache = [''BC'' \<mapsto> Finite 0],
               providerCalls = [(nbC, nbB)]\<rparr>)
   \<and> FindBestNeighborhood [''A'', ''B'', ''C''] [] plainAdd plainKey failingQuery [nbA, nbB, nbC]
        \<noteq> Returned (zeroNeighborhood, Some (QueryError ''connection refused''))"
proof -
  let ?s = "\<lparr>graph = zeroGraph, distanceCache = Map.empty, providerCalls = []\<rparr>"
  have h1: "failingQuery (Longitude nbC, Latitude nbC) (Longitude nbB, Latitude nbB)
      = Inl (QueryError ''connection refused'')"
    by (simp add: failingQuery_def)
  have h2: "distanceCache ?s (generateNeighborhoodCacheKey plainKey (Name nbC) (Name nbB)) = None"
    by simp
  have k: "generateNeighborhoodCacheKey plainKey (Name nbC) (Name nbB) = ''BC''"
    by (simp add: generateNeighborhoodCacheKey_def exampleDefs)
  show ?thesis
    using h1 h2
      provider_error_discarded[where query = failingQuery and a = nbC and b = nbB
        and e = "QueryError ''connection refused''" and s = ?s and md5hex = plainKey
        and frequencyOrder = "[''A'', ''B'', ''C'']" and edgesOrder = "[]" and addFloat = plainAdd
        and neighborhoods = "[nbA, nbB, nbC]" and n = zeroNeighborhood
        and err = "QueryError ''connection refused''"]
    by (simp add: k)
qed

text \<open>
  C7 (fails on the code). When one name has strictly more records than every other,
  \<open>FindBestNeighborhood\<close> should return a neighborhood with that name. For the input
  A, A, B, C and the iteration order A, B, C of the frequency table, the frequency step
  returns the names C and A, and the call panics.
\<close>

theorem dominant_name_not_returned:
  "iterationOrder [''A'', ''B'', ''C''] (frequencyTable Map.empty [nbA, nbA, nbB, nbC])
   \<and> findNeighborhoodWithHighestOccurrence [''A'', ''B'', ''C''] [nbA, nbA, nbB, nbC]
       = Returned ([''C'', ''A''], None)
   \<and> FindBestNeighborhood [''A'', ''B'', ''C''] edgesOrder addFloat md5hex query [nbA, nbA, nbB, nbC]
       = Panic"
proof -
  have h: "findNeighborhoodWithHighestOccurrence [''A'', ''B'', ''C''] [nbA, nbA, nbB, nbC]
       = Returned ([''C'', ''A''], None)"
    by (simp add: frequencyDefs exampleDefs)
  have "iterationOrder [''A'', ''B'', ''C''] (frequencyTable Map.empty [nbA, nbA, nbB, nbC])"
    by (auto simp: iterationOrder_def dom_frequencyTable exampleDefs)
  moreover have "FindBestNeighborhood [''A'', ''B'', ''C''] edgesOrder addFloat md5hex query
                   [nbA, nbA, nbB, nbC] = Panic"
    by (rule FindBestNeighborhood_panics[OF h, of "''C''" "''A''"]) simp_all
  ultimately show ?thesis using h by simp
qed


text \<open>
  C9 (fails on the code; counterexample). The surviving candidates should be reduced to
  one node per name. For the two records \<open>nbA\<close> and \<open>nbA2\<close>, which share the name A,
  the tie list is A, both records survive, and the graph has both as nodes.
\<close>

theorem survivors_not_deduplicated:
  "findNeighborhoodWithHighestOccurrence [''A''] [nbA, nbA2] = Returned ([''A''], None)
   \<and> highestOccurrenceNeighborhoods [''A''] [nbA, nbA2] = [nbA, nbA2]
   \<and> buildGraph plainKey scenarioQuery [nbA, nbA2]
       = Built \<lparr>graph = \<lparr>nodes = [nbA, nbA2], edges = None\<rparr>,
                distanceCache = Map.empty, providerCalls = []\<rparr>
   \<and> Name nbA = Name nbA2 \<and> nbA \<noteq> nbA2"
proof -
  have "findNeighborhoodWithHighestOccurrence [''A''] [nbA, nbA2] = Returned ([''A''], None)"
    by (simp add: frequencyDefs exampleDefs)
  moreover have "highestOccurrenceNeighborhoods [''A''] [nbA, nbA2] = [nbA, nbA2]"
    by (simp add: highestOccurrenceNeighborhoods_def exampleDefs)
  moreover have "buildGraph plainKey scenarioQuery [nbA, nbA2]
       = Built \<lparr>graph = \<lparr>nodes = [nbA, nbA2], edges = None\<rparr>,
                distanceCache = Map.empty, providerCalls = []\<rparr>"
    by (rule buildGraph_one_name[of _ "''A''"]) (simp add: exampleDefs)
  moreover have "Name nbA = Name nbA2 \<and> nbA \<noteq> nbA2"
    by (simp add: exampleDefs)
  ultimately show ?thesis by simp
qed

text \<open>
  C9 (as amended). The surviving candidates are not reduced: when the graph construction
  ends normally, the nodes of the graph are, for each name of the tie list in turn, all
  input records of that name in input order.
\<close>

theorem graph_nodes_are_all_survivors:
  assumes "buildGraph md5hex query (highestOccurrenceNeighborhoods neighborhoodNames neighborhoods)
             = Built s"
  shows "nodes (graph s)
           = concat (map (\<lambda>neighborhoodName.
                 filter (\<lambda>neighborhood. neighborhoodName = Name neighborhood) neighborhoods)
               neighborhoodNames)"
  using buildGraph_Built_nodes[OF assms] by (simp add: highestOccurrenceNeighborhoods_def)

theorem graph_nodes_are_all_survivors_witness:
  "buildGraph plainKey scenarioQuery (highestOccurrenceNeighborhoods [''A''] [nbA, nbA2])
     = Built \<lparr>graph = \<lparr>nodes = [nbA, nbA2], edges = None\<rparr>,
              distanceCache = Map.empty, providerCalls = []\<rparr>
   \<and> nodes (graph \<lparr>graph = \<lparr>nodes = [nbA, nbA2], edges = None\<rparr>,
              distanceCache = Map.empty, providerCalls = []\<rparr>)
       = concat (map (\<lambda>neighborhoodName.
                 filter (\<lambda>neighborhood. neighborhoodName = Name neighborhood) [nbA, nbA2])
               [''A''])"
proof -
  have h: "buildGraph plainKey scenarioQuery (highestOccurrenceNeighborhoods [''A''] [nbA, nbA2])
     = Built \<lparr>graph = \<lparr>nodes = [nbA, nbA2], edges = None\<rparr>,
              distanceCache = Map.empty, providerCalls = []\<rparr>"
    by (simp add: highestOccurrenceNeighborhoods_def buildDefs exampleDefs)
  show ?thesis using h graph_nodes_are_all_survivors[OF h] by simp
qed

text \<open>
  C10 (fails on the code; counterexample). Two runs on the same input should return the
  same neighborhood. For the input A, B the frequency table may be ranged over in the
  order A, B or B, A; the first run returns B, the second returns A.
\<close>

theorem result_depends_on_map_order:
  "iterationOrder [''A'', ''B''] (frequencyTable Map.empty [nbA, nbB])
   \<and> iterationOrder [''B'', ''A''] (frequencyTable Map.empty [nbA, nbB])
   \<and> FindBestNeighborhood [''A'', ''B''] [] plainAdd plainKey scenarioQuery [nbA, nbB]
       = Returned (nbB, None)
   \<and> FindBestNeighborhood [''B'', ''A''] [] plainAdd plainKey scenarioQuery [nbA, nbB]
       = Returned (nbA, None)
   \<and> nbA \<noteq> nbB"
proof -
  have "iterationOrder [''A'', ''B''] (frequencyTable Map.empty [nbA, nbB])"
    "iterationOrder [''B'', ''A''] (frequencyTable Map.empty [nbA, nbB])"
    by (auto simp: iterationOrder_def dom_frequencyTable exampleDefs)
  moreover have "FindBestNeighborhood [''A'', ''B''] [] plainAdd plainKey scenarioQuery [nbA, nbB]
       = Returned (nbB, None)"
    by (simp add: FindBestNeighborhood_def frequencyDefs highestOccurrenceNeighborhoods_def
        findNeighborhoodWithLeastDistanceToAllOtherNeighborhoods_def buildDefs
        findMinDistanceBetweenNodes_def exampleDefs)
  moreover have "FindBestNeighborhood [''B'', ''A''] [] plainAdd plainKey scenarioQuery [nbA, nbB]
       = Returned (nbA, None)"
    by (simp add: FindBestNeighborhood_def frequencyDefs highestOccurrenceNeighborhoods_def
        findNeighborhoodWithLeastDistanceToAllOtherNeighborhoods_def buildDefs
        findMinDistanceBetweenNodes_def exampleDefs)
  moreover have "nbA \<noteq> nbB" by (simp add: exampleDefs)
  ultimately show ?thesis by simp
qed

text \<open>
  C10 (as amended). Given a graph with at least one node in which the distance sum of
  every node, added up in \<open>float64\<close> in the order of its edges, is below \<open>+Inf\<close>
  (so it is neither NaN nor \<open>+Inf\<close>), \<open>findMinDistanceBetweenNodes\<close> returns the first
  node, in the order of \<open>graph.nodes\<close>, whose sum is least: no node has a smaller sum and
  every earlier node has a greater one. This holds in whatever order the runtime ranges
  over \<open>graph.edges\<close> and for every rounding of the addition.
\<close>

theorem first_minimal_node_selected:
  assumes "nodes g \<noteq> []"
    and "case edges g of None \<Rightarrow> True | Some m \<Rightarrow> iterationOrder edgesOrder m"
    and "\<forall>node \<in> set (nodes g). lessFloat (nodeSum addFloat g node) PosInf"
  shows "\<exists>i < length (nodes g).
           findMinDistanceBetweenNodes edgesOrder addFloat g = (nodes g ! i, None)
           \<and> (\<forall>j < length (nodes g).
                 \<not> lessFloat (nodeSum addFloat g (nodes g ! j)) (nodeSum addFloat g (nodes g ! i)))
           \<and> (\<forall>j < i. lessFloat (nodeSum addFloat g (nodes g ! i)) (nodeSum addFloat g (nodes g ! j)))"
proof -
  obtain n rest where ns: "nodes g = n # rest" using assms(1) by (cases "nodes g") auto
  show ?thesis
  proof (cases rest)
    case Nil
    then have "findMinDistanceBetweenNodes edgesOrder addFloat g = (nodes g ! 0, None)"
      using ns by (simp add: findMinDistanceBetweenNodes_def)
    then show ?thesis using ns Nil by (simp add: lessFloat_irrefl)
  next
    case (Cons n' rest')
    let ?totals = "distanceSums edgesOrder addFloat (edges g)"
    have f: "\<And>x. nodeSum addFloat g x = sumOf ?totals (Name x)"
      using sumOf_distanceSums[OF assms(2)] by simp
    have below: "\<forall>x \<in> set ([n] @ rest). lessFloat (nodeSum addFloat g x) PosInf"
      using assms(3) ns by simp
    have first: "selectStep ?totals n (PosInf, zeroNeighborhood)
                   = (nodeSum addFloat g ([n] ! 0), [n] ! 0)"
      using below by (simp add: selectStep_eq f)
    from fold_selectStep_first_min[where f = "nodeSum addFloat g" and totals = ?totals
        and L = "[n]" and i = 0 and xs = rest, OF f below]
    obtain k where k: "k < length ([n] @ rest)"
      and sel: "fold (selectStep ?totals) rest (nodeSum addFloat g ([n] ! 0), [n] ! 0)
             = (nodeSum addFloat g (([n] @ rest) ! k), ([n] @ rest) ! k)"
      and mn: "\<forall>j < length ([n] @ rest).
                 \<not> lessFloat (nodeSum addFloat g (([n] @ rest) ! j))
                      (nodeSum addFloat g (([n] @ rest) ! k))"
      and fst: "\<forall>j < k. lessFloat (nodeSum addFloat g (([n] @ rest) ! k))
                           (nodeSum addFloat g (([n] @ rest) ! j))"
      by (auto simp: lessFloat_irrefl)
    have "fold (selectStep ?totals) (nodes g) (PosInf, zeroNeighborhood)
            = (nodeSum addFloat g (nodes g ! k), nodes g ! k)"
      using sel first ns by simp
    then have "findMinDistanceBetweenNodes edgesOrder addFloat g = (nodes g ! k, None)"
      using ns Cons by (simp add: findMinDistanceBetweenNodes_def Let_def)
    then show ?thesis using k mn fst ns by auto
  qed
qed

theorem first_minimal_node_selected_witness:
  "nodes tiedGraph \<noteq> []
   \<and> (case edges tiedGraph of None \<Rightarrow> True | Some m \<Rightarrow> iterationOrder [''B'', ''A''] m)
   \<and> nodes tiedGraph = [nbA, nbB]
   \<and> lessFloat (nodeSum plainAdd tiedGraph nbA) PosInf
   \<and> lessFloat (nodeSum plainAdd tiedGraph nbB) PosInf
   \<and> findMinDistanceBetweenNodes [''B'', ''A''] plainAdd tiedGraph = (nbA, None)
   \<and> (\<exists>i < length (nodes tiedGraph).
         findMinDistanceBetweenNodes [''B'', ''A''] plainAdd tiedGraph
           = (nodes tiedGraph ! i, None)
         \<and> (\<forall>j < length (nodes tiedGraph).
               \<not> lessFloat (nodeSum plainAdd tiedGraph (nodes tiedGraph ! j))
                    (nodeSum plainAdd tiedGraph (nodes tiedGraph ! i)))
         \<and> (\<forall>j < i. lessFloat (nodeSum plainAdd tiedGraph (nodes tiedGraph ! i))
                        (nodeSum plainAdd tiedGraph (nodes tiedGraph ! j))))"
proof -
  have h1: "nodes tiedGraph \<noteq> []" by (simp add: tiedGraph_def)
  have h2: "case edges tiedGraph of None \<Rightarrow> True | Some m \<Rightarrow> iterationOrder [''B'', ''A''] m"
    by (auto simp: tiedGraph_def iterationOrder_def)
  have ns: "nodes tiedGraph = [nbA, nbB]" by (simp add: tiedGraph_def)
  have a: "lessFloat (nodeSum plainAdd tiedGraph nbA) PosInf"
    by (simp add: tiedGraph_def nodeSum_def sumFrom_def edgesAt_def exampleDefs)
  have b: "lessFloat (nodeSum plainAdd tiedGraph nbB) PosInf"
    by (simp add: tiedGraph_def nodeSum_def sumFrom_def edgesAt_def exampleDefs)
  have h3: "\<forall>node \<in> set (nodes tiedGraph). lessFloat (nodeSum plainAdd tiedGraph node) PosInf"
    using a b by (simp add: ns)
  have ev: "findMinDistanceBetweenNodes [''B'', ''A''] plainAdd tiedGraph = (nbA, None)"
    by (simp add: findMinDistanceBetweenNodes_def tiedGraph_def distanceSums_def rangeMap_def
          List.map_filter_simps addEdges_def sumOf_def selectStep_def exampleDefs)
  show ?thesis
    by (intro conjI h1 h2 ns a b ev first_minimal_node_selected[OF h1 h2 h3])
qed

end
